theory Spec2Isabelle
  imports Complex_Main
begin

section \<open>Numbers and constants of the swipeable row\<close>

text \<open>
  The row component computes with JavaScript numbers. They are modelled as reals:
  finite values with exact arithmetic (no NaN, no infinities, no rounding), so
  \<open>0.3\<close> is the fraction \<open>3 / 10\<close>.

  \<open>IS_RTL\<close> is read once from the host (\<open>I18nManager.isRTL\<close>) at module scope; it
  is a parameter \<open>rtl\<close> of every function that reads it.
\<close>

definition CLOSED_LEFT_POSITION :: real where
  "CLOSED_LEFT_POSITION = 0"

definition HORIZONTAL_SWIPE_DISTANCE_THRESHOLD :: real where
  "HORIZONTAL_SWIPE_DISTANCE_THRESHOLD = 10"

definition HORIZONTAL_FULL_SWIPE_SPEED_THRESHOLD :: real where
  "HORIZONTAL_FULL_SWIPE_SPEED_THRESHOLD = 3 / 10"

definition SLOW_SPEED_SWIPE_FACTOR :: real where
  "SLOW_SPEED_SWIPE_FACTOR = 4"

definition SWIPE_DURATION :: real where
  "SWIPE_DURATION = 300"

definition ON_MOUNT_BOUNCE_DELAY :: real where
  "ON_MOUNT_BOUNCE_DELAY = 700"

definition ON_MOUNT_BOUNCE_DURATION :: real where
  "ON_MOUNT_BOUNCE_DURATION = 400"

definition RIGHT_SWIPE_BOUNCE_BACK_DISTANCE :: real where
  "RIGHT_SWIPE_BOUNCE_BACK_DISTANCE = 30"

definition RIGHT_SWIPE_BOUNCE_BACK_DURATION :: real where
  "RIGHT_SWIPE_BOUNCE_BACK_DURATION = 300"

definition RIGHT_SWIPE_THRESHOLD :: real where
  "RIGHT_SWIPE_THRESHOLD = 30 * SLOW_SPEED_SWIPE_FACTOR"

section \<open>Data model of the swipeable row\<close>

text \<open>
  The props the row's logic reads. The four callback props (\<open>onClose\<close>, \<open>onOpen\<close>,
  \<open>onSwipeEnd\<close>, \<open>onSwipeStart\<close>) return nothing; a call of one is recorded, in order,
  in the \<open>calls\<close> of the row's state. \<open>children\<close> and \<open>slideoutView\<close> are only
  rendered.
\<close>

record Props =
  isOpen :: bool
  maxSwipeDistance :: real
  preventSwipeRight :: bool
  shouldBounceOnMount :: bool
  swipeThreshold :: real

text \<open>The defaults of the destructured props.\<close>

definition defaultProps :: Props where
  "defaultProps =
     \<lparr>isOpen = False, maxSwipeDistance = 0, preventSwipeRight = False,
      shouldBounceOnMount = False, swipeThreshold = 30\<rparr>"

record GestureState =
  dx :: real
  dy :: real
  vx :: real

datatype Notification = OnClose | OnOpen | OnSwipeEnd | OnSwipeStart

text \<open>
  The two functions that are ever passed as the \<open>callback\<close> of \<open>_animateTo\<close>.
\<close>

datatype Callback = emptyFunction | animateToClosedPositionDuringBounceCb

text \<open>
  An animation started with \<open>Animated.timing(currentLeft, {duration, toValue}).start(cb)\<close>
  that has not ended. \<open>callback\<close> is the \<open>callback\<close> argument of the \<open>_animateTo\<close>
  that started it.
\<close>

record Animation =
  toValue :: real
  duration :: real
  callback :: Callback

text \<open>
  The state of a mounted row:
  \<^item> \<open>previousLeft\<close>, the ref \<open>_previousLeft\<close>;
  \<^item> \<open>currentLeft\<close>, the offset last given to the \<open>Animated.Value\<close> that the handlers
    close over, by \<open>setValue\<close> or by an animation that completed (while an animation
    runs the displayed offset is on its way from there to \<open>toValue\<close>);
  \<^item> \<open>animation\<close>, the running animation the value refers to (its \<open>_animation\<close>), the
    only one that can be stopped;
  \<^item> \<open>untracked\<close>, the animations that still run although the value no longer refers
    to them (see \<open>dropReference\<close>);
  \<^item> \<open>calls\<close>, the calls made so far to the callback props.
\<close>

record RowState =
  previousLeft :: real
  currentLeft :: real
  animation :: "Animation option"
  untracked :: "Animation list"
  calls :: "Notification list"

text \<open>The state of a freshly mounted row: \<open>useRef(0)\<close>, no animation, nothing notified.\<close>

definition mountedRow :: RowState where
  "mountedRow =
     \<lparr>previousLeft = 0, currentLeft = 0, animation = None, untracked = [], calls = []\<rparr>"

definition notify :: "Notification \<Rightarrow> RowState \<Rightarrow> RowState" where
  "notify n s = s\<lparr>calls := calls s @ [n]\<rparr>"

section \<open>The host's animated value and the row's functions\<close>

text \<open>
  The animated value of react-native, as far as the row uses it.

  \<^item> \<open>value.animate(animation, cb)\<close>, reached from \<open>Animated.timing(value, config).start(cb)\<close>:
    \<open>this._animation && this._animation.stop(); this._animation = animation;
    animation.start(...)\<close>.
  \<^item> \<open>value.setValue(v)\<close>: \<open>if (this._animation) { this._animation.stop();
    this._animation = null; }\<close>, then the value is \<open>v\<close>.
  \<^item> An animation ends when it completes or when it is stopped. Either way the host
    then does \<open>this._animation = null\<close> and calls the function given to \<open>start\<close>, with
    \<open>{finished: true}\<close> or \<open>{finished: false}\<close>. The function that \<open>_animateTo\<close> gives
    takes no argument: it does \<open>_previousLeft.current = toValue; callback()\<close> in both
    cases.

  An assignment to \<open>this._animation\<close> stops nothing: an animation that the value
  referred to and that has not ended keeps running, untracked (\<open>dropReference\<close>). This
  happens to the settling animation that a stopped bounce starts from its callback.
\<close>

definition dropReference :: "RowState \<Rightarrow> RowState" where
  "dropReference s =
     s\<lparr>untracked := untracked s @ (case animation s of None \<Rightarrow> [] | Some b \<Rightarrow> [b]),
       animation := None\<rparr>"

text \<open>
  \<open>animateTo\<close> is \<open>_animateTo\<close>. \<open>startCallback a\<close> is what runs when the animation \<open>a\<close>,
  no longer among the running ones, has ended: the host's \<open>this._animation = null\<close> and
  then the function \<open>_animateTo\<close> gave to \<open>start\<close>. \<open>stopRunning\<close> is the part that
  \<open>animate\<close> and \<open>setValue\<close> share: the animation the value refers to is stopped, and
  the reference is given up. \<open>runCallback\<close> calls the \<open>callback\<close> of \<open>_animateTo\<close>.
\<close>

function animateTo :: "real \<Rightarrow> real \<Rightarrow> Callback \<Rightarrow> RowState \<Rightarrow> RowState"
  and stopRunning :: "RowState \<Rightarrow> RowState"
  and startCallback :: "Animation \<Rightarrow> RowState \<Rightarrow> RowState"
  and runCallback :: "Callback \<Rightarrow> RowState \<Rightarrow> RowState"
  and animateToClosedPositionDuringBounce :: "RowState \<Rightarrow> RowState"
  and animateToClosedPosition :: "real \<Rightarrow> RowState \<Rightarrow> RowState"
where
  "animateTo v d cb s =
     (stopRunning s)\<lparr>animation := Some \<lparr>toValue = v, duration = d, callback = cb\<rparr>\<rparr>"
| "stopRunning s =
     dropReference
       (case animation s of
          None \<Rightarrow> s
        | Some a \<Rightarrow> startCallback a (s\<lparr>animation := None\<rparr>))"
| "startCallback a s = runCallback (callback a) ((dropReference s)\<lparr>previousLeft := toValue a\<rparr>)"
| "runCallback emptyFunction s = s"
| "runCallback animateToClosedPositionDuringBounceCb s = animateToClosedPositionDuringBounce s"
| "animateToClosedPositionDuringBounce s =
     animateToClosedPosition RIGHT_SWIPE_BOUNCE_BACK_DURATION s"
| "animateToClosedPosition d s = animateTo CLOSED_LEFT_POSITION d emptyFunction s"
  by pat_completeness auto
termination
  apply (relation "measure (\<lambda>x. case x of
      Inl (Inl (v, d, cb, s)) \<Rightarrow> (if animation s = None then 1 else 7)
    | Inl (Inr (Inl s)) \<Rightarrow> (if animation s = None then 0 else 6)
    | Inl (Inr (Inr (a, s))) \<Rightarrow> 5
    | Inr (Inl (cb, s)) \<Rightarrow> (if animation s = None then 4 else 10)
    | Inr (Inr (Inl s)) \<Rightarrow> (if animation s = None then 3 else 9)
    | Inr (Inr (Inr (d, s))) \<Rightarrow> (if animation s = None then 2 else 8))")
  apply (auto simp: dropReference_def)
  done

declare animateTo.simps [simp del] stopRunning.simps [simp del] startCallback.simps [simp del]
  animateToClosedPositionDuringBounce.simps [simp del] animateToClosedPosition.simps [simp del]

text \<open>\<open>currentLeft.setValue(v)\<close>.\<close>

definition setValue :: "real \<Rightarrow> RowState \<Rightarrow> RowState" where
  "setValue v s = (stopRunning s)\<lparr>currentLeft := v\<rparr>"

definition animateToOpenPositionWith ::
  "bool \<Rightarrow> Props \<Rightarrow> real \<Rightarrow> real \<Rightarrow> RowState \<Rightarrow> RowState" where
  "animateToOpenPositionWith rtl p speed distMoved s =
     (let speed' = (if speed > HORIZONTAL_FULL_SWIPE_SPEED_THRESHOLD then speed
                    else HORIZONTAL_FULL_SWIPE_SPEED_THRESHOLD);
          duration = \<bar>(maxSwipeDistance p - \<bar>distMoved\<bar>) / speed'\<bar>;
          distance = (if rtl then - maxSwipeDistance p else maxSwipeDistance p)
      in animateTo (- distance) duration emptyFunction s)"

definition shouldAnimateRemainder :: "Props \<Rightarrow> GestureState \<Rightarrow> bool" where
  "shouldAnimateRemainder p g =
     (\<bar>dx g\<bar> > swipeThreshold p \<or> vx g > HORIZONTAL_FULL_SWIPE_SPEED_THRESHOLD)"

text \<open>
  In \<open>_swipeFullSpeed\<close> and \<open>_swipeSlowSpeed\<close> the argument of \<open>setValue\<close> is computed,
  from \<open>_previousLeft.current\<close> as it is then, before \<open>setValue\<close> runs.
\<close>

definition swipeFullSpeed :: "GestureState \<Rightarrow> RowState \<Rightarrow> RowState" where
  "swipeFullSpeed g s = setValue (previousLeft s + dx g) s"

definition swipeSlowSpeed :: "GestureState \<Rightarrow> RowState \<Rightarrow> RowState" where
  "swipeSlowSpeed g s = setValue (previousLeft s + dx g / SLOW_SPEED_SWIPE_FACTOR) s"

definition isSwipingRightFromClosed :: "bool \<Rightarrow> GestureState \<Rightarrow> RowState \<Rightarrow> bool" where
  "isSwipingRightFromClosed rtl g s =
     (let gestureStateDx = (if rtl then - dx g else dx g)
      in previousLeft s = CLOSED_LEFT_POSITION \<and> gestureStateDx > 0)"

definition isSwipingExcessivelyRightFromClosedPosition ::
  "bool \<Rightarrow> GestureState \<Rightarrow> RowState \<Rightarrow> bool" where
  "isSwipingExcessivelyRightFromClosedPosition rtl g s =
     (let gestureStateDx = (if rtl then - dx g else dx g)
      in isSwipingRightFromClosed rtl g s \<and> gestureStateDx > RIGHT_SWIPE_THRESHOLD)"

definition handlePanResponderMove :: "bool \<Rightarrow> GestureState \<Rightarrow> RowState \<Rightarrow> RowState" where
  "handlePanResponderMove rtl g s =
     (if isSwipingExcessivelyRightFromClosedPosition rtl g s then s
      else let s1 = notify OnSwipeStart s
           in if isSwipingRightFromClosed rtl g s1 then swipeSlowSpeed g s1
              else swipeFullSpeed g s1)"

definition isValidSwipe :: "Props \<Rightarrow> GestureState \<Rightarrow> RowState \<Rightarrow> bool" where
  "isValidSwipe p g s =
     (if preventSwipeRight p \<and> previousLeft s = CLOSED_LEFT_POSITION \<and> dx g > 0 then False
      else \<bar>dx g\<bar> > HORIZONTAL_SWIPE_DISTANCE_THRESHOLD)"

definition handleMoveShouldSetPanResponderCapture ::
  "Props \<Rightarrow> GestureState \<Rightarrow> RowState \<Rightarrow> bool" where
  "handleMoveShouldSetPanResponderCapture p g s = (dy g < 10 \<and> isValidSwipe p g s)"

definition animateBounceBack :: "bool \<Rightarrow> real \<Rightarrow> RowState \<Rightarrow> RowState" where
  "animateBounceBack rtl d s =
     (let swipeBounceBackDistance =
            (if rtl then - RIGHT_SWIPE_BOUNCE_BACK_DISTANCE else RIGHT_SWIPE_BOUNCE_BACK_DISTANCE)
      in animateTo (- swipeBounceBackDistance) d animateToClosedPositionDuringBounceCb s)"

definition animateToOpenPosition :: "bool \<Rightarrow> Props \<Rightarrow> RowState \<Rightarrow> RowState" where
  "animateToOpenPosition rtl p s =
     (let distance = (if rtl then - maxSwipeDistance p else maxSwipeDistance p)
      in animateTo (- distance) SWIPE_DURATION emptyFunction s)"

definition handlePanResponderEnd ::
  "bool \<Rightarrow> Props \<Rightarrow> GestureState \<Rightarrow> RowState \<Rightarrow> RowState" where
  "handlePanResponderEnd rtl p g s =
     (let horizontalDistance = (if rtl then - dx g else dx g);
          s1 =
            (if isSwipingRightFromClosed rtl g s then
               animateBounceBack rtl RIGHT_SWIPE_BOUNCE_BACK_DURATION (notify OnOpen s)
             else if shouldAnimateRemainder p g then
               (if horizontalDistance < 0 then
                  animateToOpenPositionWith rtl p (vx g) horizontalDistance (notify OnOpen s)
                else animateToClosedPosition SWIPE_DURATION (notify OnClose s))
             else
               (if previousLeft s = CLOSED_LEFT_POSITION then
                  animateToClosedPosition SWIPE_DURATION s
                else animateToOpenPosition rtl p s))
      in notify OnSwipeEnd s1)"

text \<open>
  The two effects of the row: the bounce after the mount delay, and the reconciliation
  with the \<open>isOpen\<close> prop.
\<close>

definition mountBounceTimeout :: "bool \<Rightarrow> Props \<Rightarrow> RowState \<Rightarrow> RowState" where
  "mountBounceTimeout rtl p s =
     (if shouldBounceOnMount p then animateBounceBack rtl ON_MOUNT_BOUNCE_DURATION s else s)"

definition isOpenEffect :: "bool \<Rightarrow> Props \<Rightarrow> RowState \<Rightarrow> RowState" where
  "isOpenEffect rtl p s =
     (if \<not> isOpen p then animateToClosedPosition SWIPE_DURATION s
      else animateToOpenPosition rtl p s)"

text \<open>
  The completion of a running animation: the value is its \<open>toValue\<close>, and its end is
  handled as above. \<open>animationEnd\<close> completes the animation the value refers to,
  \<open>untrackedAnimationEnd i\<close> the untracked animation at position \<open>i\<close>.
\<close>

definition animationEnd :: "RowState \<Rightarrow> RowState" where
  "animationEnd s =
     (case animation s of
        None \<Rightarrow> s
      | Some a \<Rightarrow> startCallback a (s\<lparr>currentLeft := toValue a, animation := None\<rparr>))"

definition untrackedAnimationEnd :: "nat \<Rightarrow> RowState \<Rightarrow> RowState" where
  "untrackedAnimationEnd i s =
     (if i < length (untracked s) then
        startCallback (untracked s ! i)
          (s\<lparr>currentLeft := toValue (untracked s ! i),
             untracked := take i (untracked s) @ drop (Suc i) (untracked s)\<rparr>)
      else s)"

text \<open>
  Everything that can happen to a mounted row within one render: the pan responder's
  move, release and terminate handlers (release and terminate are the same function),
  the completion of a running animation, and the two effects.
\<close>

datatype RowEvent =
  PanResponderMove GestureState
| PanResponderRelease GestureState
| PanResponderTerminate GestureState
| AnimationEnd
| UntrackedAnimationEnd nat
| MountBounceTimeout
| IsOpenEffect

fun rowStep :: "bool \<Rightarrow> Props \<Rightarrow> RowState \<Rightarrow> RowEvent \<Rightarrow> RowState" where
  "rowStep rtl p s (PanResponderMove g) = handlePanResponderMove rtl g s"
| "rowStep rtl p s (PanResponderRelease g) = handlePanResponderEnd rtl p g s"
| "rowStep rtl p s (PanResponderTerminate g) = handlePanResponderEnd rtl p g s"
| "rowStep rtl p s AnimationEnd = animationEnd s"
| "rowStep rtl p s (UntrackedAnimationEnd i) = untrackedAnimationEnd i s"
| "rowStep rtl p s MountBounceTimeout = mountBounceTimeout rtl p s"
| "rowStep rtl p s IsOpenEffect = isOpenEffect rtl p s"

definition rowRun :: "bool \<Rightarrow> Props \<Rightarrow> RowState \<Rightarrow> RowEvent list \<Rightarrow> RowState" where
  "rowRun rtl p s es = foldl (rowStep rtl p) s es"

text \<open>
  The notifications a handler has added: those in the calls of \<open>s'\<close> beyond the
  calls of \<open>s\<close>.
\<close>

definition notified :: "RowState \<Rightarrow> RowState \<Rightarrow> Notification list" where
  "notified s s' = drop (length (calls s)) (calls s')"

section \<open>The quick-actions list\<close>

text \<open>
  \<open>React.ReactText\<close> is \<open>string | number\<close>; \<open>===\<close> on two such values holds when
  both are of the same kind and equal. \<open>openRowKey\<close> is a \<open>ReactText | null\<close>.
\<close>

datatype ReactText = Num real | Str string

record 'item ListRenderItemInfo =
  item :: 'item
  index :: nat

text \<open>
  The list's prop \<open>maxSwipeDistance\<close> (here \<open>listMaxSwipeDistance\<close>, the row's prop has
  the name already) is absent, a number, or a function of the item's info. A React node
  is a \<open>'node option\<close>, \<open>None\<close> standing for every falsy node. The caller's own
  \<open>renderItem\<close> prop is \<open>propsRenderItem\<close>.
\<close>

datatype 'item MaxSwipeDistanceProp =
  Unset | Fixed real | PerItem "'item ListRenderItemInfo \<Rightarrow> real"

record ('item, 'node) ListProps =
  bounceFirstRowOnMount :: bool
  listMaxSwipeDistance :: "'item MaxSwipeDistanceProp"
  renderQuickActions :: "('item ListRenderItemInfo \<Rightarrow> 'node option) option"
  keyExtractor :: "('item \<Rightarrow> nat \<Rightarrow> ReactText) option"
  propsRenderItem :: "('item ListRenderItemInfo \<Rightarrow> 'node option) option"

record ListState =
  openRowKey :: "ReactText option"

definition initialList :: ListState where
  "initialList = \<lparr>openRowKey = None\<rparr>"

text \<open>
  What \<open>_renderItem\<close> returns: the caller's plain item, or a \<open>SwipeableRow\<close> element
  with the key its \<open>onOpen\<close> and \<open>onClose\<close> closures hold, its slide-out view, the
  props the row's logic reads, and its children.
\<close>

datatype 'node Element =
  PlainItem "'node option"
| SwipeableRowElement ReactText 'node Props "'node option"

definition getMaxSwipeDistance ::
  "('item, 'node) ListProps \<Rightarrow> 'item ListRenderItemInfo \<Rightarrow> real" where
  "getMaxSwipeDistance props info =
     (case listMaxSwipeDistance props of
        PerItem f \<Rightarrow> f info
      | Fixed d \<Rightarrow> (if d = 0 then 50 else d)
      | Unset \<Rightarrow> 50)"

text \<open>The \<open>key\<close> computed in \<open>_renderItem\<close>.\<close>

definition rowKey :: "('item, 'node) ListProps \<Rightarrow> 'item ListRenderItemInfo \<Rightarrow> ReactText" where
  "rowKey props info =
     (case keyExtractor props of
        Some f \<Rightarrow> f (item info) (index info)
      | None \<Rightarrow> Num (real (index info)))"

definition renderItem ::
  "('item, 'node) ListProps \<Rightarrow> ListState \<Rightarrow> 'item ListRenderItemInfo \<Rightarrow> 'node Element" where
  "renderItem props st info =
     (let slideoutView = (case renderQuickActions props of None \<Rightarrow> None | Some f \<Rightarrow> f info);
          key = rowKey props info
      in case slideoutView of
           None \<Rightarrow> PlainItem (case propsRenderItem props of None \<Rightarrow> None | Some f \<Rightarrow> f info)
         | Some v \<Rightarrow>
             SwipeableRowElement key v
               (defaultProps
                  \<lparr>isOpen := (Some key = openRowKey st),
                   maxSwipeDistance := getMaxSwipeDistance props info,
                   shouldBounceOnMount := bounceFirstRowOnMount props\<rparr>)
               (case propsRenderItem props of None \<Rightarrow> None | Some f \<Rightarrow> f info))"

definition onOpen :: "ReactText \<Rightarrow> ListState \<Rightarrow> ListState" where
  "onOpen key st = st\<lparr>openRowKey := Some key\<rparr>"

definition onClose :: "ReactText \<Rightarrow> ListState \<Rightarrow> ListState" where
  "onClose key st = st\<lparr>openRowKey := None\<rparr>"

definition onScroll :: "ListState \<Rightarrow> ListState" where
  "onScroll st = (if openRowKey st \<noteq> None then st\<lparr>openRowKey := None\<rparr> else st)"

text \<open>
  The events that change the list's state: a row calling the \<open>onOpen\<close> or \<open>onClose\<close>
  it was given (with the key of that row), and a scroll event of the list.
\<close>

datatype ListEvent = RowOpened ReactText | RowClosed ReactText | Scrolled

fun listStep :: "ListState \<Rightarrow> ListEvent \<Rightarrow> ListState" where
  "listStep st (RowOpened key) = onOpen key st"
| "listStep st (RowClosed key) = onClose key st"
| "listStep st Scrolled = onScroll st"

definition listRun :: "ListEvent list \<Rightarrow> ListState" where
  "listRun es = foldl listStep initialList es"

text \<open>The infos of the items of the data, and the elements rendered for them.\<close>

definition infos :: "'item list \<Rightarrow> 'item ListRenderItemInfo list" where
  "infos items = map (\<lambda>(i, x). \<lparr>item = x, index = i\<rparr>) (enumerate 0 items)"

definition renderList ::
  "('item, 'node) ListProps \<Rightarrow> ListState \<Rightarrow> 'item list \<Rightarrow> 'node Element list" where
  "renderList props st items = map (renderItem props st) (infos items)"

fun rowIsOpen :: "'node Element \<Rightarrow> bool" where
  "rowIsOpen (PlainItem c) = False"
| "rowIsOpen (SwipeableRowElement key v p c) = isOpen p"

fun elementKey :: "'node Element \<Rightarrow> ReactText option" where
  "elementKey (PlainItem c) = None"
| "elementKey (SwipeableRowElement key v p c) = Some key"

section \<open>The row of the left/right-actions list\<close>

text \<open>
  This row (\<open>src/SwipeableRow.tsx\<close>) delegates the gesture to the \<open>Swipeable\<close> of
  the gesture-handler library and keeps a ref to it. The library's handle is modelled
  by the number of times its \<open>close()\<close> was called. A member call on a ref that holds
  \<open>null\<close> or \<open>undefined\<close> throws a \<open>TypeError\<close>.
\<close>

datatype JsError = TypeError

record Swipeable =
  closeCalls :: nat

record SwipeableRowProps =
  isScrolling :: bool
  closeOnScroll :: bool

text \<open>\<open>rowRef.current.close()\<close>.\<close>

definition callClose :: "Swipeable option \<Rightarrow> JsError + Swipeable option" where
  "callClose rowRef =
     (case rowRef of
        None \<Rightarrow> Inl TypeError
      | Some h \<Rightarrow> Inr (Some (h\<lparr>closeCalls := Suc (closeCalls h)\<rparr>)))"

definition close :: "Swipeable option \<Rightarrow> JsError + Swipeable option" where
  "close rowRef = (if rowRef = None then Inr rowRef else callClose rowRef)"

text \<open>
  The effect \<open>useEffect(() => {...}, [closeOnScroll, isScrolling])\<close>: React runs its
  body after the first render (no previous dependencies) and after every render in
  which a dependency differs from the previous render's.
\<close>

definition closeEffectBody ::
  "SwipeableRowProps \<Rightarrow> Swipeable option \<Rightarrow> JsError + Swipeable option" where
  "closeEffectBody p rowRef =
     (if isScrolling p \<and> closeOnScroll p then close rowRef else Inr rowRef)"

definition closeEffect ::
  "(bool \<times> bool) option \<Rightarrow> SwipeableRowProps \<Rightarrow> Swipeable option
     \<Rightarrow> JsError + Swipeable option" where
  "closeEffect previousDeps p rowRef =
     (if previousDeps = Some (closeOnScroll p, isScrolling p) then Inr rowRef
      else closeEffectBody p rowRef)"

section \<open>Unfolding the row's functions\<close>

lemmas row_constants =
  CLOSED_LEFT_POSITION_def HORIZONTAL_SWIPE_DISTANCE_THRESHOLD_def
  HORIZONTAL_FULL_SWIPE_SPEED_THRESHOLD_def SLOW_SPEED_SWIPE_FACTOR_def
  SWIPE_DURATION_def ON_MOUNT_BOUNCE_DELAY_def ON_MOUNT_BOUNCE_DURATION_def
  RIGHT_SWIPE_BOUNCE_BACK_DISTANCE_def RIGHT_SWIPE_BOUNCE_BACK_DURATION_def
  RIGHT_SWIPE_THRESHOLD_def

lemmas row_defs =
  handlePanResponderEnd_def handlePanResponderMove_def isSwipingRightFromClosed_def
  isSwipingExcessivelyRightFromClosedPosition_def shouldAnimateRemainder_def
  animateToOpenPositionWith_def animateToOpenPosition_def animateBounceBack_def
  swipeFullSpeed_def swipeSlowSpeed_def notify_def
  mountBounceTimeout_def isOpenEffect_def notified_def

section \<open>The host's operations in closed form\<close>

lemma dropReference_idle: "animation s = None \<Longrightarrow> dropReference s = s"
  by (simp add: dropReference_def)

lemma animateTo_idle:
  "animation s = None \<Longrightarrow>
   animateTo v d cb s = s\<lparr>animation := Some \<lparr>toValue = v, duration = d, callback = cb\<rparr>\<rparr>"
  by (simp add: animateTo.simps stopRunning.simps dropReference_idle)

lemma startCallback_closed:
  "startCallback a s =
     (dropReference s)
       \<lparr>previousLeft := toValue a,
        animation := (case callback a of
            emptyFunction \<Rightarrow> None
          | animateToClosedPositionDuringBounceCb \<Rightarrow>
              Some \<lparr>toValue = 0, duration = 300, callback = emptyFunction\<rparr>)\<rparr>"
proof -
  let ?s0 = "(dropReference s)\<lparr>previousLeft := toValue a\<rparr>"
  have idle: "animation ?s0 = None"
    by (simp add: dropReference_def)
  show ?thesis
  proof (cases "callback a")
    case emptyFunction
    then show ?thesis
      by (simp add: startCallback.simps dropReference_def)
  next
    case animateToClosedPositionDuringBounceCb
    then show ?thesis
      by (simp add: startCallback.simps animateToClosedPositionDuringBounce.simps
          animateToClosedPosition.simps animateTo_idle [OF idle] row_constants)
  qed
qed

lemma stopRunning_closed:
  "stopRunning s =
     (case animation s of
        None \<Rightarrow> s
      | Some a \<Rightarrow>
          s\<lparr>previousLeft := toValue a, animation := None,
            untracked := untracked s @
              (case callback a of
                 emptyFunction \<Rightarrow> []
               | animateToClosedPositionDuringBounceCb \<Rightarrow>
                   [\<lparr>toValue = 0, duration = 300, callback = emptyFunction\<rparr>])\<rparr>)"
proof (cases "animation s")
  case None
  then show ?thesis
    by (simp add: stopRunning.simps dropReference_idle)
next
  case (Some a)
  then show ?thesis
    by (cases "callback a") (simp_all add: stopRunning.simps startCallback_closed dropReference_def)
qed

lemma stopRunning_fields [simp]:
  "calls (stopRunning s) = calls s"
  "currentLeft (stopRunning s) = currentLeft s"
  "animation (stopRunning s) = None"
  "previousLeft (stopRunning s) = (case animation s of None \<Rightarrow> previousLeft s | Some a \<Rightarrow> toValue a)"
  by (simp_all add: stopRunning_closed split: option.splits)

lemma animateTo_fields [simp]:
  "calls (animateTo v d cb s) = calls s"
  "currentLeft (animateTo v d cb s) = currentLeft s"
  "animation (animateTo v d cb s) = Some \<lparr>toValue = v, duration = d, callback = cb\<rparr>"
  "previousLeft (animateTo v d cb s) =
     (case animation s of None \<Rightarrow> previousLeft s | Some a \<Rightarrow> toValue a)"
  "untracked (animateTo v d cb s) = untracked (stopRunning s)"
  by (simp_all add: animateTo.simps)

lemma animateToClosedPosition_fields [simp]:
  "calls (animateToClosedPosition d s) = calls s"
  "currentLeft (animateToClosedPosition d s) = currentLeft s"
  "animation (animateToClosedPosition d s) = Some \<lparr>toValue = 0, duration = d, callback = emptyFunction\<rparr>"
  "previousLeft (animateToClosedPosition d s) =
     (case animation s of None \<Rightarrow> previousLeft s | Some a \<Rightarrow> toValue a)"
  "untracked (animateToClosedPosition d s) = untracked (stopRunning s)"
  by (simp_all add: animateToClosedPosition.simps row_constants)

lemma setValue_fields [simp]:
  "calls (setValue v s) = calls s"
  "currentLeft (setValue v s) = v"
  "animation (setValue v s) = None"
  "previousLeft (setValue v s) =
     (case animation s of None \<Rightarrow> previousLeft s | Some a \<Rightarrow> toValue a)"
  "untracked (setValue v s) = untracked (stopRunning s)"
  by (simp_all add: setValue_def)

lemma animationEnd_closed:
  "animationEnd s =
     (case animation s of
        None \<Rightarrow> s
      | Some a \<Rightarrow>
          s\<lparr>previousLeft := toValue a, currentLeft := toValue a,
            animation := (case callback a of
                emptyFunction \<Rightarrow> None
              | animateToClosedPositionDuringBounceCb \<Rightarrow>
                  Some \<lparr>toValue = 0, duration = 300, callback = emptyFunction\<rparr>)\<rparr>)"
  by (cases "animation s") (simp_all add: animationEnd_def startCallback_closed dropReference_def)

lemma untrackedAnimationEnd_previousLeft:
  "previousLeft (untrackedAnimationEnd i s) =
     (if i < length (untracked s) then toValue (untracked s ! i) else previousLeft s)"
  by (simp add: untrackedAnimationEnd_def startCallback_closed)

section \<open>Helper lemmas\<close>

lemma stopRunning_calls_update:
  "stopRunning (s\<lparr>calls := c\<rparr>) = (stopRunning s)\<lparr>calls := c\<rparr>"
  by (cases "animation s") (simp_all add: stopRunning_closed)

lemma move_explicit:
  "handlePanResponderMove rtl g s =
     (if previousLeft s = 0 \<and> (if rtl then - dx g else dx g) > 120 then s
      else (stopRunning s)
        \<lparr>currentLeft := previousLeft s
            + (if previousLeft s = 0 \<and> (if rtl then - dx g else dx g) > 0 then dx g / 4 else dx g),
         calls := calls s @ [OnSwipeStart]\<rparr>)"
  by (auto simp: row_defs row_constants Let_def setValue_def stopRunning_calls_update)

lemma move_idle_previousLeft:
  "animation s = None \<Longrightarrow> previousLeft (handlePanResponderMove rtl g s) = previousLeft s"
  by (simp add: move_explicit)

lemma move_idle_animation:
  "animation s = None \<Longrightarrow> animation (handlePanResponderMove rtl g s) = None"
  by (simp add: move_explicit)

lemma moves_idle:
  "animation s = None \<Longrightarrow>
   previousLeft (foldl (\<lambda>s g. handlePanResponderMove rtl g s) s gs) = previousLeft s
   \<and> animation (foldl (\<lambda>s g. handlePanResponderMove rtl g s) s gs) = None"
  by (induction gs arbitrary: s) (simp_all add: move_idle_previousLeft move_idle_animation)

lemma moves_within_cap:
  "\<forall>g\<in>set gs. (if rtl then - dx g else dx g) \<le> 120 \<Longrightarrow>
   calls (foldl (\<lambda>s g. handlePanResponderMove rtl g s) s gs)
     = calls s @ replicate (length gs) OnSwipeStart"
proof (induction gs arbitrary: s)
  case Nil
  then show ?case by simp
next
  case (Cons g gs)
  have "calls (handlePanResponderMove rtl g s) = calls s @ [OnSwipeStart]"
    using Cons.prems by (simp add: move_explicit)
  with Cons show ?case
    by (simp add: replicate_app_Cons_same)
qed

lemma rowRun_moves:
  "rowRun rtl p s (map PanResponderMove gs) = foldl (\<lambda>s g. handlePanResponderMove rtl g s) s gs"
  by (induction gs arbitrary: s) (simp_all add: rowRun_def)

lemma rowRun_append: "rowRun rtl p s (es @ fs) = rowRun rtl p (rowRun rtl p s es) fs"
  by (simp add: rowRun_def)

lemma end_previousLeft:
  "previousLeft (handlePanResponderEnd rtl p g s) =
     (case animation s of None \<Rightarrow> previousLeft s | Some a \<Rightarrow> toValue a)"
  by (cases "animation s") (simp_all add: row_defs Let_def)

lemma effects_previousLeft:
  "previousLeft (mountBounceTimeout rtl p s) =
     (if shouldBounceOnMount p
      then (case animation s of None \<Rightarrow> previousLeft s | Some a \<Rightarrow> toValue a)
      else previousLeft s)"
  "previousLeft (isOpenEffect rtl p s) =
     (case animation s of None \<Rightarrow> previousLeft s | Some a \<Rightarrow> toValue a)"
  by (cases "animation s"; simp add: row_defs Let_def)+

lemma move_previousLeft:
  "previousLeft (handlePanResponderMove rtl g s) =
     (if previousLeft s = 0 \<and> (if rtl then - dx g else dx g) > 120 then previousLeft s
      else (case animation s of None \<Rightarrow> previousLeft s | Some a \<Rightarrow> toValue a))"
  by (cases "animation s") (simp_all add: move_explicit)

lemma animationEnd_previousLeft:
  "previousLeft (animationEnd s) =
     (case animation s of None \<Rightarrow> previousLeft s | Some a \<Rightarrow> toValue a)"
  by (cases "animation s") (simp_all add: animationEnd_closed)



lemma end_snap_back:
  assumes "\<bar>dx g\<bar> \<le> swipeThreshold p" and "vx g \<le> 3 / 10"
    and "\<not> (previousLeft s = 0 \<and> (if rtl then - dx g else dx g) > 0)"
  shows "handlePanResponderEnd rtl p g s =
     (stopRunning s)
       \<lparr>animation := Some \<lparr>toValue = (if previousLeft s = 0 then 0
                                        else if rtl then maxSwipeDistance p else - maxSwipeDistance p),
                             duration = 300, callback = emptyFunction\<rparr>,
        calls := calls s @ [OnSwipeEnd]\<rparr>"
  using assms
  by (auto simp: row_defs row_constants Let_def animateTo.simps animateToClosedPosition.simps)

lemma snap_back_run:
  assumes "\<bar>dx g\<bar> \<le> swipeThreshold p" and "vx g \<le> 3 / 10"
    and "\<not> (previousLeft s = 0 \<and> (if rtl then - dx g else dx g) > 0)"
    and "animation s = None"
  shows "(let target = (if previousLeft s = 0 then 0
                        else if rtl then maxSwipeDistance p else - maxSwipeDistance p);
              final = rowRun rtl p s (map PanResponderMove ms @ [PanResponderRelease g, AnimationEnd])
          in previousLeft final = target \<and> currentLeft final = target \<and> animation final = None)"
proof -
  let ?m = "foldl (\<lambda>s g. handlePanResponderMove rtl g s) s ms"
  have m: "previousLeft ?m = previousLeft s \<and> animation ?m = None"
    using assms(4) by (rule moves_idle)
  have run: "rowRun rtl p s (map PanResponderMove ms @ [PanResponderRelease g, AnimationEnd])
      = animationEnd (handlePanResponderEnd rtl p g ?m)"
    by (simp add: rowRun_append rowRun_moves) (simp add: rowRun_def)
  have h3: "\<not> (previousLeft ?m = 0 \<and> (if rtl then - dx g else dx g) > 0)"
    using assms(3) m by simp
  note e = end_snap_back [OF assms(1) assms(2) h3]
  show ?thesis
    unfolding Let_def run e using m by (simp add: animationEnd_closed)
qed

lemma filter_key_distinct:
  "distinct (map h xs) \<Longrightarrow> length (filter (\<lambda>x. h x = k) xs) \<le> 1"
proof (induction xs)
  case Nil
  then show ?case by simp
next
  case (Cons x xs)
  show ?case
  proof (cases "h x = k")
    case True
    with Cons.prems have "k \<notin> h ` set xs"
      by simp
    then have "filter (\<lambda>y. h y = k) xs = []"
      by (force simp: filter_empty_conv image_iff)
    with True show ?thesis by simp
  next
    case False
    with Cons show ?thesis by simp
  qed
qed

lemma rowIsOpen_renderItem:
  "rowIsOpen (renderItem props st info) =
     ((case renderQuickActions props of None \<Rightarrow> False | Some f \<Rightarrow> f info \<noteq> None)
      \<and> openRowKey st = Some (rowKey props info))"
  by (auto simp: renderItem_def Let_def defaultProps_def split: option.splits)

lemma elementKey_renderItem:
  "rowIsOpen (renderItem props st info) \<Longrightarrow>
   elementKey (renderItem props st info) = openRowKey st"
  by (auto simp: renderItem_def Let_def defaultProps_def split: option.splits)

lemma open_rows_le:
  assumes "distinct (map (rowKey props) is)"
  shows "length (filter rowIsOpen (map (renderItem props st) is)) \<le> 1"
proof (cases "openRowKey st")
  case None
  then have "filter rowIsOpen (map (renderItem props st) is) = []"
    by (simp add: filter_empty_conv rowIsOpen_renderItem)
  then show ?thesis by simp
next
  case (Some k)
  have "length (filter rowIsOpen (map (renderItem props st) is))
      = length (filter (rowIsOpen \<circ> renderItem props st) is)"
    by (simp add: filter_map)
  also have "\<dots> \<le> length (filter (\<lambda>info. rowKey props info = k) is)"
  proof (induction "is")
    case Nil
    then show ?case by simp
  next
    case (Cons a as)
    then show ?case using Some by (auto simp: rowIsOpen_renderItem)
  qed
  also have "\<dots> \<le> 1"
    using assms by (rule filter_key_distinct)
  finally show ?thesis .
qed

lemma index_infos: "map index (infos items) = [0..<length items]"
  by (simp add: infos_def split_def comp_def)

lemma index_keys_distinct:
  assumes "keyExtractor props = None"
  shows "distinct (map (rowKey props) (infos items))"
proof -
  have "map (rowKey props) (infos items) = map (\<lambda>i. Num (real i)) (map index (infos items))"
    using assms by (simp add: rowKey_def)
  then have "map (rowKey props) (infos items) = map (\<lambda>i. Num (real i)) [0..<length items]"
    by (simp only: index_infos)
  moreover have "distinct (map (\<lambda>i. Num (real i)) [0..<length items])"
    by (simp add: distinct_map inj_on_def)
  ultimately show ?thesis by simp
qed

lemma open_keys_card:
  "card (elementKey ` {e \<in> set (renderList props st items). rowIsOpen e}) \<le> 1"
proof -
  have "elementKey ` {e \<in> set (renderList props st items). rowIsOpen e} \<subseteq> {openRowKey st}"
    by (auto simp: renderList_def elementKey_renderItem)
  then have "card (elementKey ` {e \<in> set (renderList props st items). rowIsOpen e})
      \<le> card {openRowKey st}"
    by (rule card_mono [rotated]) simp
  then show ?thesis by simp
qed

section \<open>The quick-actions list: one open row\<close>

text \<open>
  C1, as the code has it. The list holds one nullable \<open>openRowKey\<close>. A row's
  \<open>onOpen(key)\<close> sets it to \<open>key\<close>; its \<open>onClose(key)\<close> sets it to null for every
  key, whatever key is open; a scroll event sets it to null. A rendered row receives
  \<open>isOpen = (key === openRowKey)\<close>. So in every state the list reaches, the rows
  rendered with \<open>isOpen = true\<close> all carry the one key \<open>openRowKey\<close>; and when the
  keys of the rows are pairwise distinct, as the default index keys always are, at most
  one row is rendered with \<open>isOpen = true\<close>.
\<close>

theorem at_most_one_row_open:
  "openRowKey (onOpen key st) = Some key
   \<and> openRowKey (onClose key st) = None
   \<and> openRowKey (onScroll st) = None
   \<and> rowIsOpen (renderItem props st info) =
       ((case renderQuickActions props of None \<Rightarrow> False | Some f \<Rightarrow> f info \<noteq> None)
        \<and> openRowKey st = Some (rowKey props info))
   \<and> card (elementKey ` {e \<in> set (renderList props (listRun es) items). rowIsOpen e}) \<le> 1
   \<and> (keyExtractor props = None \<longrightarrow>
        length (filter rowIsOpen (renderList props (listRun es) items)) \<le> 1)
   \<and> (distinct (map (rowKey props) (infos items)) \<longrightarrow>
        length (filter rowIsOpen (renderList props (listRun es) items)) \<le> 1)"
proof -
  have handlers: "openRowKey (onOpen key st) = Some key \<and> openRowKey (onClose key st) = None
      \<and> openRowKey (onScroll st) = None"
    by (simp add: onOpen_def onClose_def onScroll_def)
  have distinct_case: "distinct (map (rowKey props) (infos items)) \<longrightarrow>
      length (filter rowIsOpen (renderList props (listRun es) items)) \<le> 1"
    unfolding renderList_def using open_rows_le by blast
  have index_case: "keyExtractor props = None \<longrightarrow>
      length (filter rowIsOpen (renderList props (listRun es) items)) \<le> 1"
    using distinct_case index_keys_distinct [of props items] by blast
  show ?thesis
    using handlers rowIsOpen_renderItem [of props st info]
      open_keys_card [of props "listRun es" items] distinct_case index_case
    by blast
qed

theorem at_most_one_row_open_witness:
  "keyExtractor \<lparr>bounceFirstRowOnMount = False, listMaxSwipeDistance = Unset,
       renderQuickActions = Some (\<lambda>info. Some ()), keyExtractor = None,
       propsRenderItem = None\<rparr> = None
   \<and> length (filter rowIsOpen
        (renderList \<lparr>bounceFirstRowOnMount = False, listMaxSwipeDistance = Unset,
           renderQuickActions = Some (\<lambda>info. Some ()), keyExtractor = None,
           propsRenderItem = None\<rparr>
         (listRun [RowOpened (Num 0), RowOpened (Num 2)]) [(), (), ()])) \<le> 1
   \<and> distinct (map (rowKey \<lparr>bounceFirstRowOnMount = False, listMaxSwipeDistance = Unset,
       renderQuickActions = Some (\<lambda>info. Some (item info)),
       keyExtractor = Some (\<lambda>x i. Str x), propsRenderItem = None\<rparr>) (infos [''a'', ''b'']))
   \<and> length (filter rowIsOpen
        (renderList \<lparr>bounceFirstRowOnMount = False, listMaxSwipeDistance = Unset,
           renderQuickActions = Some (\<lambda>info. Some (item info)),
           keyExtractor = Some (\<lambda>x i. Str x), propsRenderItem = None\<rparr>
         (listRun [RowOpened (Str ''a''), Scrolled, RowOpened (Str ''b'')]) [''a'', ''b''])) \<le> 1"
  using at_most_one_row_open [where es = "[RowOpened (Num 0), RowOpened (Num 2)]"
      and items = "[(), (), ()]"
      and props = "\<lparr>bounceFirstRowOnMount = False, listMaxSwipeDistance = Unset,
           renderQuickActions = Some (\<lambda>info. Some ()), keyExtractor = None,
           propsRenderItem = None\<rparr>"]
    at_most_one_row_open [where es = "[RowOpened (Str ''a''), Scrolled, RowOpened (Str ''b'')]"
      and items = "[''a'', ''b'']"
      and props = "\<lparr>bounceFirstRowOnMount = False, listMaxSwipeDistance = Unset,
           renderQuickActions = Some (\<lambda>info. Some (item info)),
           keyExtractor = Some (\<lambda>x i. Str x), propsRenderItem = None\<rparr>"]
  by (simp add: infos_def rowKey_def)

text \<open>
  C1, as stated, fails when two rows have the same key: with a \<open>keyExtractor\<close> that
  takes the key from the item and two items \<open>''a''\<close>, after the row with key
  \<open>''a''\<close> has called \<open>onOpen\<close> both rows are rendered with \<open>isOpen = true\<close>.
\<close>

theorem two_rows_open_counterexample:
  "length (filter rowIsOpen
     (renderList \<lparr>bounceFirstRowOnMount = False, listMaxSwipeDistance = Unset,
        renderQuickActions = Some (\<lambda>info. Some (item info)),
        keyExtractor = Some (\<lambda>x i. Str x), propsRenderItem = None\<rparr>
      (listRun [RowOpened (Str ''a'')]) [''a'', ''a''])) = 2"
  by (simp add: renderList_def infos_def renderItem_def rowKey_def listRun_def initialList_def
      onOpen_def defaultProps_def)

section \<open>Gesture capture\<close>

text \<open>
  C2. On a candidate move event the row claims the gesture exactly when the vertical
  displacement is below 10, the absolute horizontal displacement exceeds 10, and it is
  not the case that \<open>preventSwipeRight\<close> is set, the row is closed and the horizontal
  displacement is rightward.
\<close>

theorem capture_iff:
  "handleMoveShouldSetPanResponderCapture p g s =
     (dy g < 10 \<and> \<bar>dx g\<bar> > 10 \<and> \<not> (preventSwipeRight p \<and> previousLeft s = 0 \<and> dx g > 0))"
  by (auto simp: handleMoveShouldSetPanResponderCapture_def isValidSwipe_def row_constants)

text \<open>
  C10. The capture check compares the signed vertical displacement with 10, not its
  magnitude: a gesture whose absolute horizontal displacement exceeds 10 and whose
  vertical displacement is upward by 10 or more (\<open>dy \<le> -10\<close>) is still claimed by the
  row, unless the \<open>preventSwipeRight\<close> exclusion applies.
\<close>

theorem capture_signed_dy:
  assumes "dy g \<le> - 10" and "\<bar>dx g\<bar> > 10"
    and "\<not> (preventSwipeRight p \<and> previousLeft s = 0 \<and> dx g > 0)"
  shows "handleMoveShouldSetPanResponderCapture p g s \<and> \<not> \<bar>dy g\<bar> < 10"
  using assms
  by (auto simp: handleMoveShouldSetPanResponderCapture_def isValidSwipe_def row_constants)

theorem capture_signed_dy_witness:
  "dy \<lparr>dx = 11, dy = - 500, vx = 0\<rparr> \<le> - 10 \<and> \<bar>dx \<lparr>dx = 11, dy = - 500, vx = 0\<rparr>\<bar> > 10
   \<and> handleMoveShouldSetPanResponderCapture defaultProps \<lparr>dx = 11, dy = - 500, vx = 0\<rparr> mountedRow"
  using capture_signed_dy [where g = "\<lparr>dx = 11, dy = - 500, vx = 0\<rparr>" and p = defaultProps
      and s = mountedRow]
  by (simp add: defaultProps_def)

section \<open>Tracking while dragging\<close>

text \<open>
  C6. A move event on a closed row whose direction-corrected \<open>dx\<close> exceeds 120 is
  suppressed entirely: the state is unchanged, so no offset is applied and nothing is
  notified. Otherwise, on a closed row with positive direction-corrected \<open>dx\<close> the
  offset applied is \<open>previousLeft + dx / 4\<close>, and in every other case it is
  \<open>previousLeft + dx\<close>, with \<open>previousLeft\<close> as it is when the handler is called;
  and \<open>onSwipeStart\<close> is called once by every such move, in whatever state it arrives,
  not only by the first: a sequence of moves none of which exceeds the cap notifies
  \<open>onSwipeStart\<close> once per move.
\<close>

theorem move_tracking:
  "(let gestureStateDx = (if rtl then - dx g else dx g);
        s' = handlePanResponderMove rtl g s
    in if previousLeft s = 0 \<and> gestureStateDx > 120 then s' = s
       else currentLeft s' =
              (if previousLeft s = 0 \<and> gestureStateDx > 0 then previousLeft s + dx g / 4
               else previousLeft s + dx g)
          \<and> notified s s' = [OnSwipeStart])
   \<and> ((\<forall>h\<in>set gs. (if rtl then - dx h else dx h) \<le> 120) \<longrightarrow>
        notified s (foldl (\<lambda>s g. handlePanResponderMove rtl g s) s gs)
          = replicate (length gs) OnSwipeStart)"
proof -
  have one: "(let gestureStateDx = (if rtl then - dx g else dx g);
        s' = handlePanResponderMove rtl g s
    in if previousLeft s = 0 \<and> gestureStateDx > 120 then s' = s
       else currentLeft s' =
              (if previousLeft s = 0 \<and> gestureStateDx > 0 then previousLeft s + dx g / 4
               else previousLeft s + dx g)
          \<and> notified s s' = [OnSwipeStart])"
    by (simp add: move_explicit Let_def notified_def)
  have many: "(\<forall>h\<in>set gs. (if rtl then - dx h else dx h) \<le> 120) \<longrightarrow>
        notified s (foldl (\<lambda>s g. handlePanResponderMove rtl g s) s gs)
          = replicate (length gs) OnSwipeStart"
    by (simp add: moves_within_cap notified_def)
  from one many show ?thesis by blast
qed

theorem move_tracking_witness:
  "dx \<lparr>dx = - 5, dy = 0, vx = 0\<rparr> \<le> 120 \<and> dx \<lparr>dx = 100, dy = 0, vx = 0\<rparr> \<le> 120
   \<and> notified mountedRow
        (foldl (\<lambda>s g. handlePanResponderMove False g s) mountedRow
           [\<lparr>dx = - 5, dy = 0, vx = 0\<rparr>, \<lparr>dx = 100, dy = 0, vx = 0\<rparr>])
       = [OnSwipeStart, OnSwipeStart]
   \<and> calls
        (foldl (\<lambda>s g. handlePanResponderMove False g s)
           (rowRun False (defaultProps\<lparr>maxSwipeDistance := 80\<rparr>) mountedRow
              [PanResponderRelease \<lparr>dx = - 50, dy = 0, vx = 0\<rparr>])
           [\<lparr>dx = - 5, dy = 0, vx = 0\<rparr>, \<lparr>dx = 130, dy = 0, vx = 0\<rparr>])
       = [OnOpen, OnSwipeEnd, OnSwipeStart, OnSwipeStart]"
  using move_tracking [where rtl = False and s = mountedRow
      and g = "\<lparr>dx = - 5, dy = 0, vx = 0\<rparr>"
      and gs = "[\<lparr>dx = - 5, dy = 0, vx = 0\<rparr>, \<lparr>dx = 100, dy = 0, vx = 0\<rparr>]"]
  by (simp add: rowRun_def row_defs row_constants Let_def defaultProps_def mountedRow_def
      animateTo_idle setValue_def stopRunning_closed)

section \<open>Release and termination\<close>

text \<open>
  C3. A released or terminated gesture that is not a rightward swipe from closed is
  treated as a committed swipe exactly when \<open>|dx|\<close> exceeds \<open>swipeThreshold\<close> (30 by
  default) or the release velocity exceeds 0.3: exactly then \<open>onOpen\<close> or \<open>onClose\<close> is
  notified and the animation goes to the endpoint the gesture points to (open when
  leftward, closed otherwise); if not, nothing but \<open>onSwipeEnd\<close> is notified and the
  animation goes back to the endpoint the row was at (closed if \<open>previousLeft\<close> is 0,
  open otherwise).
\<close>

theorem committed_iff:
  assumes "\<not> (previousLeft s = 0 \<and> (if rtl then - dx g else dx g) > 0)"
    and "e = PanResponderRelease g \<or> e = PanResponderTerminate g"
  shows "(let s' = rowStep rtl p s e;
              committed = (\<bar>dx g\<bar> > swipeThreshold p \<or> vx g > 3 / 10);
              openOffset = (if rtl then maxSwipeDistance p else - maxSwipeDistance p)
          in (OnOpen \<in> set (notified s s') \<or> OnClose \<in> set (notified s s')) = committed
           \<and> (notified s s' = [OnSwipeEnd]) = (\<not> committed)
           \<and> map_option toValue (animation s') =
               Some (if committed then (if (if rtl then - dx g else dx g) < 0 then openOffset else 0)
                     else (if previousLeft s = 0 then 0 else openOffset)))
         \<and> swipeThreshold defaultProps = 30"
  using assms
  by (auto simp: row_defs row_constants Let_def defaultProps_def)

theorem committed_iff_witness:
  "\<not> (previousLeft mountedRow = 0 \<and> (if False then - dx \<lparr>dx = - 20, dy = 0, vx = - 1\<rparr>
                                         else dx \<lparr>dx = - 20, dy = 0, vx = - 1\<rparr>) > 0)
   \<and> notified mountedRow
        (rowStep False defaultProps mountedRow (PanResponderRelease \<lparr>dx = - 20, dy = 0, vx = - 1\<rparr>))
       = [OnSwipeEnd]
   \<and> notified mountedRow
        (rowStep False defaultProps mountedRow (PanResponderRelease \<lparr>dx = - 31, dy = 0, vx = - 1\<rparr>))
       \<noteq> [OnSwipeEnd]"
  using committed_iff [where s = mountedRow and rtl = False and p = defaultProps
      and g = "\<lparr>dx = - 20, dy = 0, vx = - 1\<rparr>"
      and e = "PanResponderRelease \<lparr>dx = - 20, dy = 0, vx = - 1\<rparr>"]
    committed_iff [where s = mountedRow and rtl = False and p = defaultProps
      and g = "\<lparr>dx = - 31, dy = 0, vx = - 1\<rparr>"
      and e = "PanResponderRelease \<lparr>dx = - 31, dy = 0, vx = - 1\<rparr>"]
  by (simp add: Let_def defaultProps_def mountedRow_def)

text \<open>
  C4. On a committed release whose direction-corrected horizontal movement is negative,
  \<open>onOpen\<close> is notified exactly once and the row animates to the fully open offset
  \<open>- maxSwipeDistance\<close> (\<open>maxSwipeDistance\<close> under right-to-left), over the duration
  \<open>|maxSwipeDistance - |distMoved|| / speed\<close> where \<open>speed\<close> is the release velocity,
  or 0.3 when the velocity is lower; when that animation completes the row is settled
  at the open offset.
\<close>

theorem committed_leftward_opens:
  assumes "\<bar>dx g\<bar> > swipeThreshold p \<or> vx g > 3 / 10"
    and "(if rtl then - dx g else dx g) < 0"
  shows "(let distMoved = (if rtl then - dx g else dx g);
              speed = max (vx g) (3 / 10);
              target = (if rtl then maxSwipeDistance p else - maxSwipeDistance p);
              s' = handlePanResponderEnd rtl p g s
          in notified s s' = [OnOpen, OnSwipeEnd]
           \<and> count_list (notified s s') OnOpen = 1
           \<and> animation s' =
               Some \<lparr>toValue = target,
                     duration = \<bar>maxSwipeDistance p - \<bar>distMoved\<bar>\<bar> / speed,
                     callback = emptyFunction\<rparr>
           \<and> previousLeft (animationEnd s') = target
           \<and> currentLeft (animationEnd s') = target
           \<and> animation (animationEnd s') = None
           \<and> calls (animationEnd s') = calls s')"
  using assms
  by (cases rtl)
    (auto simp: row_defs row_constants Let_def max_def abs_if field_simps animationEnd_closed)

theorem committed_leftward_opens_witness:
  "\<bar>dx \<lparr>dx = - 50, dy = 2, vx = - 1 / 2\<rparr>\<bar> > swipeThreshold (defaultProps\<lparr>maxSwipeDistance := 80\<rparr>)
   \<and> dx \<lparr>dx = - 50, dy = 2, vx = - 1 / 2\<rparr> < 0
   \<and> handlePanResponderEnd False (defaultProps\<lparr>maxSwipeDistance := 80\<rparr>)
        \<lparr>dx = - 50, dy = 2, vx = - 1 / 2\<rparr> mountedRow =
       \<lparr>previousLeft = 0, currentLeft = 0,
        animation = Some \<lparr>toValue = - 80, duration = 100, callback = emptyFunction\<rparr>,
        untracked = [], calls = [OnOpen, OnSwipeEnd]\<rparr>"
  using committed_leftward_opens [where rtl = False and s = mountedRow
      and p = "defaultProps\<lparr>maxSwipeDistance := 80\<rparr>"
      and g = "\<lparr>dx = - 50, dy = 2, vx = - 1 / 2\<rparr>"]
  by (simp add: row_defs row_constants Let_def defaultProps_def mountedRow_def animateTo_idle)




text \<open>
  C7, as the code has it. On a release that is not a rightward swipe from closed and
  is not committed (\<open>|dx|\<close> at most \<open>swipeThreshold\<close> and velocity at most 0.3), the
  row notifies only \<open>onSwipeEnd\<close> and animates over 300 ms to the closed offset 0
  when \<open>previousLeft\<close> is 0 at the release and to the open offset otherwise. When no
  animation is in flight at the start of the gesture, \<open>previousLeft\<close> at the release
  is \<open>previousLeft\<close> at the start of the gesture, and the whole sequence (any moves,
  the release, the completion of the animation) ends settled at that offset: the end
  offsets depend on nothing but \<open>previousLeft\<close> at the start, so the sequence run
  from start states with the same \<open>previousLeft\<close> ends at the same offsets.
\<close>

theorem snap_back:
  assumes "\<bar>dx g\<bar> \<le> swipeThreshold p" and "vx g \<le> 3 / 10"
    and "\<not> (previousLeft s = 0 \<and> (if rtl then - dx g else dx g) > 0)"
  shows "(let target = (if previousLeft s = 0 then 0
                        else if rtl then maxSwipeDistance p else - maxSwipeDistance p);
              gesture = (\<lambda>ms. map PanResponderMove ms @ [PanResponderRelease g, AnimationEnd]);
              s' = handlePanResponderEnd rtl p g s;
              final = rowRun rtl p s (gesture ms);
              final' = rowRun rtl p t (gesture ms')
          in notified s s' = [OnSwipeEnd]
           \<and> animation s' = Some \<lparr>toValue = target, duration = 300, callback = emptyFunction\<rparr>
           \<and> (animation s = None \<longrightarrow>
                previousLeft final = target \<and> currentLeft final = target \<and> animation final = None)
           \<and> (animation s = None \<and> animation t = None \<and> previousLeft t = previousLeft s \<longrightarrow>
                previousLeft final' = previousLeft final \<and> currentLeft final' = currentLeft final
                \<and> animation final' = animation final))"
proof -
  note e = end_snap_back [OF assms]
  have release: "notified s (handlePanResponderEnd rtl p g s) = [OnSwipeEnd]
      \<and> animation (handlePanResponderEnd rtl p g s) =
          Some \<lparr>toValue = (if previousLeft s = 0 then 0
                            else if rtl then maxSwipeDistance p else - maxSwipeDistance p),
                duration = 300, callback = emptyFunction\<rparr>"
    unfolding e by (simp add: notified_def)
  have run: "animation s = None \<longrightarrow>
      (let target = (if previousLeft s = 0 then 0
                     else if rtl then maxSwipeDistance p else - maxSwipeDistance p);
           final = rowRun rtl p s (map PanResponderMove ms @ [PanResponderRelease g, AnimationEnd])
       in previousLeft final = target \<and> currentLeft final = target \<and> animation final = None)"
    using snap_back_run [OF assms] by blast
  have run': "animation t = None \<and> previousLeft t = previousLeft s \<longrightarrow>
      (let target = (if previousLeft s = 0 then 0
                     else if rtl then maxSwipeDistance p else - maxSwipeDistance p);
           final = rowRun rtl p t (map PanResponderMove ms' @ [PanResponderRelease g, AnimationEnd])
       in previousLeft final = target \<and> currentLeft final = target \<and> animation final = None)"
  proof (intro impI, elim conjE)
    assume idle: "animation t = None" and same: "previousLeft t = previousLeft s"
    have h3: "\<not> (previousLeft t = 0 \<and> (if rtl then - dx g else dx g) > 0)"
      using assms(3) same by simp
    show "(let target = (if previousLeft s = 0 then 0
                     else if rtl then maxSwipeDistance p else - maxSwipeDistance p);
           final = rowRun rtl p t (map PanResponderMove ms' @ [PanResponderRelease g, AnimationEnd])
       in previousLeft final = target \<and> currentLeft final = target \<and> animation final = None)"
      using snap_back_run [OF assms(1) assms(2) h3 idle, of ms'] same by simp
  qed
  show ?thesis
    using release run run' unfolding Let_def by simp
qed

theorem snap_back_witness:
  "\<bar>dx \<lparr>dx = 12, dy = 1, vx = 1 / 10\<rparr>\<bar> \<le> swipeThreshold (defaultProps\<lparr>maxSwipeDistance := 80\<rparr>)
   \<and> vx \<lparr>dx = 12, dy = 1, vx = 1 / 10\<rparr> \<le> 3 / 10
   \<and> animation (mountedRow\<lparr>previousLeft := - 80, currentLeft := - 80\<rparr>) = None
   \<and> previousLeft (rowRun False (defaultProps\<lparr>maxSwipeDistance := 80\<rparr>)
        (mountedRow\<lparr>previousLeft := - 80, currentLeft := - 80\<rparr>)
        (map PanResponderMove [\<lparr>dx = 3, dy = 0, vx = 0\<rparr>, \<lparr>dx = 12, dy = 1, vx = 1 / 10\<rparr>]
           @ [PanResponderRelease \<lparr>dx = 12, dy = 1, vx = 1 / 10\<rparr>, AnimationEnd])) = - 80"
  using snap_back [where g = "\<lparr>dx = 12, dy = 1, vx = 1 / 10\<rparr>"
      and p = "defaultProps\<lparr>maxSwipeDistance := 80\<rparr>"
      and s = "mountedRow\<lparr>previousLeft := - 80, currentLeft := - 80\<rparr>"
      and t = "mountedRow\<lparr>previousLeft := - 80, currentLeft := - 80\<rparr>"
      and rtl = False
      and ms = "[\<lparr>dx = 3, dy = 0, vx = 0\<rparr>, \<lparr>dx = 12, dy = 1, vx = 1 / 10\<rparr>]"
      and ms' = "[]"]
  by (simp add: defaultProps_def mountedRow_def Let_def)

text \<open>
  C7, as stated, fails. A release with \<open>|dx| \<le> swipeThreshold\<close> and velocity at most
  0.3 on a row with \<open>previousLeft = 0\<close> that is a rightward swipe (\<open>dx = 5\<close>, left to
  right) notifies \<open>onOpen\<close> and animates to \<open>-30\<close> with the settling animation chained,
  not to 0. And with an animation to \<open>-80\<close> in flight at the start of the gesture
  (\<open>previousLeft = 0\<close>), the first move stops it, which sets \<open>previousLeft\<close> to
  \<open>-80\<close>, and the release then animates to the open offset \<open>-80\<close>, not to 0.
\<close>

theorem snap_back_counterexample:
  "\<bar>dx \<lparr>dx = 5, dy = 0, vx = 0\<rparr>\<bar> \<le> swipeThreshold defaultProps
   \<and> vx \<lparr>dx = 5, dy = 0, vx = 0\<rparr> \<le> 3 / 10
   \<and> previousLeft mountedRow = 0
   \<and> handlePanResponderEnd False defaultProps \<lparr>dx = 5, dy = 0, vx = 0\<rparr> mountedRow =
       \<lparr>previousLeft = 0, currentLeft = 0,
        animation = Some \<lparr>toValue = - 30, duration = 300,
                          callback = animateToClosedPositionDuringBounceCb\<rparr>,
        untracked = [], calls = [OnOpen, OnSwipeEnd]\<rparr>
   \<and> animation (handlePanResponderEnd False defaultProps \<lparr>dx = 5, dy = 0, vx = 0\<rparr> mountedRow) \<noteq>
       Some \<lparr>toValue = 0, duration = 300, callback = emptyFunction\<rparr>
   \<and> previousLeft (rowRun False (defaultProps\<lparr>maxSwipeDistance := 80\<rparr>) mountedRow
        [PanResponderRelease \<lparr>dx = - 50, dy = 0, vx = 0\<rparr>]) = 0
   \<and> rowRun False (defaultProps\<lparr>maxSwipeDistance := 80\<rparr>) mountedRow
        [PanResponderRelease \<lparr>dx = - 50, dy = 0, vx = 0\<rparr>,
         PanResponderMove \<lparr>dx = - 5, dy = 0, vx = 0\<rparr>,
         PanResponderRelease \<lparr>dx = - 5, dy = 0, vx = 0\<rparr>] =
       \<lparr>previousLeft = - 80, currentLeft = - 5,
        animation = Some \<lparr>toValue = - 80, duration = 300, callback = emptyFunction\<rparr>,
        untracked = [], calls = [OnOpen, OnSwipeEnd, OnSwipeStart, OnSwipeEnd]\<rparr>"
  by (simp add: rowRun_def row_defs row_constants Let_def defaultProps_def mountedRow_def
      animateTo_idle animateTo.simps animateToClosedPosition.simps setValue_def stopRunning_closed)

section \<open>The settled offset\<close>

text \<open>
  C8, as the code has it. \<open>previousLeft\<close> is written only inside the function that
  \<open>_animateTo\<close> gives to \<open>start\<close>, which sets it to that animation's target. The host
  calls that function when the animation completes and also when the animation is
  stopped, and both \<open>setValue\<close> and the start of another animation stop the animation
  in flight. So an event changes \<open>previousLeft\<close> only to the target of an animation
  that was running and that the event ends: a move that is not suppressed, a release,
  an effect that animates, or the completion itself set it to the target of the
  animation in flight, and leave it unchanged when none is in flight. When an
  animation is superseded before it completes, \<open>previousLeft\<close> becomes the target of
  the superseded animation.
\<close>

theorem previousLeft_written_when_animation_ends:
  "(let ended = (case animation s of None \<Rightarrow> previousLeft s | Some a \<Rightarrow> toValue a)
    in previousLeft (rowStep rtl p s e) =
         (case e of
            PanResponderMove g \<Rightarrow>
              (if previousLeft s = 0 \<and> (if rtl then - dx g else dx g) > 120 then previousLeft s
               else ended)
          | UntrackedAnimationEnd i \<Rightarrow>
              (if i < length (untracked s) then toValue (untracked s ! i) else previousLeft s)
          | MountBounceTimeout \<Rightarrow> (if shouldBounceOnMount p then ended else previousLeft s)
          | _ \<Rightarrow> ended)
     \<and> previousLeft (setValue v s) = ended
     \<and> previousLeft (animateTo v d cb s) = ended
     \<and> previousLeft (animateTo v d cb (animateTo v0 d0 cb0 s)) = v0
     \<and> previousLeft (animationEnd (animateTo v d cb s)) = v)"
proof -
  have step: "previousLeft (rowStep rtl p s e) =
         (case e of
            PanResponderMove g \<Rightarrow>
              (if previousLeft s = 0 \<and> (if rtl then - dx g else dx g) > 120 then previousLeft s
               else (case animation s of None \<Rightarrow> previousLeft s | Some a \<Rightarrow> toValue a))
          | UntrackedAnimationEnd i \<Rightarrow>
              (if i < length (untracked s) then toValue (untracked s ! i) else previousLeft s)
          | MountBounceTimeout \<Rightarrow>
              (if shouldBounceOnMount p
               then (case animation s of None \<Rightarrow> previousLeft s | Some a \<Rightarrow> toValue a)
               else previousLeft s)
          | _ \<Rightarrow> (case animation s of None \<Rightarrow> previousLeft s | Some a \<Rightarrow> toValue a))"
    by (cases e)
      (simp_all add: move_previousLeft end_previousLeft animationEnd_previousLeft
        untrackedAnimationEnd_previousLeft effects_previousLeft)
  have superseded: "previousLeft (animateTo v d cb (animateTo v0 d0 cb0 s)) = v0
      \<and> previousLeft (animationEnd (animateTo v d cb s)) = v"
    by (simp add: animationEnd_previousLeft)
  show ?thesis
    unfolding Let_def using step superseded by simp
qed

theorem previousLeft_written_when_animation_ends_witness:
  "previousLeft
     (animateTo 0 300 emptyFunction (animateTo (- 80) 100 emptyFunction mountedRow)) = - 80
   \<and> previousLeft (animationEnd (animateTo (- 80) 100 emptyFunction mountedRow)) = - 80
   \<and> previousLeft (rowStep False defaultProps mountedRow
        (PanResponderMove \<lparr>dx = - 5, dy = 0, vx = 0\<rparr>)) = 0"
  using previousLeft_written_when_animation_ends [where s = mountedRow and rtl = False
      and p = defaultProps and e = "PanResponderMove \<lparr>dx = - 5, dy = 0, vx = 0\<rparr>"
      and v = "- 80" and d = 100 and cb = emptyFunction
      and ?v0.0 = "- 80" and ?d0.0 = 100 and ?cb0.0 = emptyFunction]
    previousLeft_written_when_animation_ends [where s = mountedRow and rtl = False
      and p = defaultProps and e = "PanResponderMove \<lparr>dx = - 5, dy = 0, vx = 0\<rparr>"
      and v = 0 and d = 300 and cb = emptyFunction
      and ?v0.0 = "- 80" and ?d0.0 = 100 and ?cb0.0 = emptyFunction]
  by (simp add: Let_def mountedRow_def)

text \<open>
  C8, as stated, fails: a move writes \<open>previousLeft\<close>, and a superseded animation does
  not leave it at the last completed value. After a committed leftward release on a
  freshly mounted row (\<open>maxSwipeDistance = 80\<close>) the animation to \<open>-80\<close> is in flight and
  \<open>previousLeft\<close> is 0; a move, or the start of the closing animation by the \<open>isOpen\<close>
  effect, then sets \<open>previousLeft\<close> to \<open>-80\<close> although no animation has completed.
\<close>

theorem previousLeft_counterexample:
  "rowRun False (defaultProps\<lparr>maxSwipeDistance := 80\<rparr>) mountedRow
     [PanResponderRelease \<lparr>dx = - 50, dy = 0, vx = 0\<rparr>] =
     \<lparr>previousLeft = 0, currentLeft = 0,
      animation = Some \<lparr>toValue = - 80, duration = 100, callback = emptyFunction\<rparr>,
      untracked = [], calls = [OnOpen, OnSwipeEnd]\<rparr>
   \<and> rowRun False (defaultProps\<lparr>maxSwipeDistance := 80\<rparr>) mountedRow
     [PanResponderRelease \<lparr>dx = - 50, dy = 0, vx = 0\<rparr>,
      PanResponderMove \<lparr>dx = - 5, dy = 0, vx = 0\<rparr>] =
     \<lparr>previousLeft = - 80, currentLeft = - 5, animation = None,
      untracked = [], calls = [OnOpen, OnSwipeEnd, OnSwipeStart]\<rparr>
   \<and> rowRun False (defaultProps\<lparr>maxSwipeDistance := 80\<rparr>) mountedRow
     [PanResponderRelease \<lparr>dx = - 50, dy = 0, vx = 0\<rparr>, IsOpenEffect] =
     \<lparr>previousLeft = - 80, currentLeft = 0,
      animation = Some \<lparr>toValue = 0, duration = 300, callback = emptyFunction\<rparr>,
      untracked = [], calls = [OnOpen, OnSwipeEnd]\<rparr>"
  by (simp add: rowRun_def row_defs row_constants Let_def defaultProps_def mountedRow_def
      animateTo_idle animateTo.simps animateToClosedPosition.simps setValue_def stopRunning_closed)

section \<open>Closing on scroll in the left/right-actions list\<close>

text \<open>
  C9. In the left/right-actions variant, the row's effect calls the row's \<open>close()\<close>
  whenever it runs with \<open>isScrolling\<close> and \<open>closeOnScroll\<close> both true, and it runs
  whenever one of the two has changed since the previous render (or there was none);
  \<open>close()\<close> returns without error and leaves the state as it is when the swipeable handle
  is not mounted, and calls the handle's \<open>close()\<close> once when it is.
\<close>

theorem close_on_scroll:
  "closeEffect previousDeps p rowRef =
     (if previousDeps \<noteq> Some (closeOnScroll p, isScrolling p) \<and> isScrolling p \<and> closeOnScroll p
      then close rowRef else Inr rowRef)
   \<and> closeEffectBody \<lparr>isScrolling = True, closeOnScroll = True\<rparr> rowRef = close rowRef
   \<and> close None = Inr None
   \<and> close (Some h) = Inr (Some (h\<lparr>closeCalls := closeCalls h + 1\<rparr>))"
  by (auto simp: closeEffect_def closeEffectBody_def close_def callClose_def)

end
